theory Spec2Isabelle
  imports Main "HOL-Library.Word"
begin

section \<open>The TPM2 transport over IEEE 1275 firmware (grub-core/lib/ieee1275/tcg2.c)\<close>

subsection \<open>Machine types and error codes\<close>

text \<open>
  Modelled from the spec: the integer types are declared in grub/types.h and
  grub/ieee1275/ieee1275.h, which are not among the sources; the spec (3) has the device
  handle as an opaque integer. They are taken at the widths of 32-bit PowerPC Open
  Firmware: a firmware cell, an instance handle, a package handle, a pointer and
  \<open>grub_size_t\<close> are 32 bits wide, so a cell converts to a size or an address
  unchanged. The null pointer and \<open>IEEE1275_IHANDLE_INVALID\<close> (line 31 of the file) are
  the word 0. The \<open>int\<close> results of the firmware primitives are only compared
  (\<open>< 0\<close>, \<open>== -1\<close>, \<open>!\<close>), so they are mathematical integers here; the
  \<open>static int\<close> flags only go from 0 to 1 and cannot overflow.
\<close>

type_synonym grub_ieee1275_cell_t = "32 word"
type_synonym grub_ieee1275_ihandle_t = "32 word"
type_synonym grub_ieee1275_phandle_t = "32 word"
type_synonym grub_size_t = "32 word"
type_synonym grub_addr_t = "32 word"
type_synonym grub_uint8_t = "8 word"

text \<open>Byte-addressed memory: the caller's command and response buffers live here.\<close>

type_synonym memory = "grub_addr_t \<Rightarrow> grub_uint8_t"

text \<open>The members of \<open>grub_err_t\<close> (grub/err.h) that this file returns.\<close>

datatype grub_err_t =
    GRUB_ERR_NONE
  | GRUB_ERR_UNKNOWN_DEVICE
  | GRUB_ERR_BAD_DEVICE
  | GRUB_ERR_INVALID_COMMAND
  | GRUB_ERR_BAD_ARGUMENT

definition IEEE1275_IHANDLE_INVALID :: grub_ieee1275_ihandle_t where
  "IEEE1275_IHANDLE_INVALID = 0"

definition NULL :: grub_addr_t where
  "NULL = 0"

subsection \<open>The firmware call frame\<close>

text \<open>
  Modelled from the spec: \<open>struct grub_ieee1275_common_hdr\<close> and the macro
  \<open>INIT_IEEE1275_COMMON\<close> are declared in grub/ieee1275/ieee1275.h, which is not
  among the sources. The spec (4.1, 3) describes the header as the call-type tag with
  the declared numbers of input and output cells.
\<close>

record grub_ieee1275_common_hdr =
  hdr_name :: string
  nr_ins :: nat
  nr_outs :: nat

definition INIT_IEEE1275_COMMON :: "string \<Rightarrow> nat \<Rightarrow> nat \<Rightarrow> grub_ieee1275_common_hdr" where
  "INIT_IEEE1275_COMMON xname xins xouts = \<lparr>hdr_name = xname, nr_ins = xins, nr_outs = xouts\<rparr>"

text \<open>
  The two argument structures of the file, \<open>struct tpm_get_maximum_cmd_size\<close> and
  \<open>struct tpm_pass_through_to_tpm\<close>, with the cells the code fills in before the call
  (header, method name, instance handle, and for the pass-through the buffer size and
  address). The two output cells of either structure (\<open>catch_result\<close>, then
  \<open>size\<close> or \<open>resp_size\<close>) are uninitialised stack memory before the call; they are
  what the firmware entry point hands back.
\<close>

datatype ieee1275_args =
    Tpm_get_maximum_cmd_size grub_ieee1275_common_hdr string grub_ieee1275_cell_t
  | Tpm_pass_through_to_tpm grub_ieee1275_common_hdr string grub_ieee1275_cell_t
      grub_ieee1275_cell_t grub_ieee1275_cell_t

subsection \<open>The firmware collaborators\<close>

text \<open>
  The firmware is outside the file: it is a parameter of every operation, a
  deterministic machine with a state of its own (\<open>'f\<close>).

  \<^item> \<open>fw_open path h f\<close> is \<open>grub_ieee1275_open (path, &handle)\<close> where the handle
    variable holds \<open>h\<close>: the \<open>int\<close> result, the content of the handle variable after
    the call, the next firmware state.
  \<^item> \<open>fw_finddevice path f\<close> is \<open>grub_ieee1275_finddevice (path, &phandle)\<close>.
  \<^item> \<open>fw_get_property ph prop n f\<close> is
    \<open>grub_ieee1275_get_property (ph, prop, buffer, n, NULL)\<close>; the string is the content
    of the buffer after the call (see \<open>char_buffer\<close>).
  \<^item> \<open>fw_entry_fn args m f\<close> is \<open>IEEE1275_CALL_ENTRY_FN (&args)\<close> with memory \<open>m\<close>:
    the \<open>int\<close> result, the two output cells (\<open>catch_result\<close>, then \<open>size\<close> or
    \<open>resp_size\<close>), the memory after the call (the firmware writes its response into the
    command buffer), the next firmware state.
\<close>

record 'f ieee1275_firmware =
  fw_open :: "string \<Rightarrow> grub_ieee1275_ihandle_t \<Rightarrow> 'f \<Rightarrow> int \<times> grub_ieee1275_ihandle_t \<times> 'f"
  fw_finddevice :: "string \<Rightarrow> 'f \<Rightarrow> int \<times> grub_ieee1275_phandle_t \<times> 'f"
  fw_get_property :: "grub_ieee1275_phandle_t \<Rightarrow> string \<Rightarrow> nat \<Rightarrow> 'f \<Rightarrow> int \<times> string \<times> 'f"
  fw_entry_fn :: "ieee1275_args \<Rightarrow> memory \<Rightarrow> 'f
                   \<Rightarrow> int \<times> (grub_ieee1275_cell_t \<times> grub_ieee1275_cell_t) \<times> memory \<times> 'f"

text \<open>
  What a test double would log: every call that leaves the file, in order, with the
  arguments the file passed.
\<close>

datatype event =
    Ev_open string
  | Ev_finddevice string
  | Ev_get_property grub_ieee1275_phandle_t string nat
  | Ev_call_entry ieee1275_args
  | Ev_grub_error grub_err_t string

subsection \<open>Process-wide state\<close>

text \<open>
  The two globals of the file, its three function-local statics (\<open>init_success\<close> of
  \<open>grub_ieee1275_tpm_init\<close>, and the two variables both called \<open>error_displayed\<close>, of
  \<open>grub_tcg2_get_max_output_size\<close> and of \<open>grub_tcg2_submit_command\<close>), the memory, the
  state of the firmware, and the log of outgoing calls.
\<close>

record 'f world =
  grub_ieee1275_tpm_ihandle :: grub_ieee1275_ihandle_t
  grub_ieee1275_tpm_version :: grub_uint8_t
  init_success :: int
  get_max_output_size_error_displayed :: int
  submit_command_error_displayed :: int
  mem :: memory
  firmware_state :: "'f"
  trace :: "event list"

text \<open>The state at program start: globals and statics are zero-initialised.\<close>

definition boot_world :: "memory \<Rightarrow> 'f \<Rightarrow> 'f world" where
  "boot_world m f =
     \<lparr>grub_ieee1275_tpm_ihandle = 0, grub_ieee1275_tpm_version = 0, init_success = 0,
      get_max_output_size_error_displayed = 0, submit_command_error_displayed = 0,
      mem = m, firmware_state = f, trace = []\<rparr>"

subsection \<open>Calls that leave the file\<close>

text \<open>\<open>grub_ieee1275_open (path, &grub_ieee1275_tpm_ihandle)\<close>.\<close>

definition grub_ieee1275_open :: "'f ieee1275_firmware \<Rightarrow> string \<Rightarrow> 'f world \<Rightarrow> int \<times> 'f world" where
  "grub_ieee1275_open fw path s =
     (case fw_open fw path (grub_ieee1275_tpm_ihandle s) (firmware_state s) of
        (rc, h, f) \<Rightarrow>
          (rc, s\<lparr>grub_ieee1275_tpm_ihandle := h, firmware_state := f,
                 trace := trace s @ [Ev_open path]\<rparr>))"

text \<open>\<open>grub_ieee1275_finddevice (path, &vtpm)\<close>: the result and the new \<open>vtpm\<close>.\<close>

definition grub_ieee1275_finddevice ::
  "'f ieee1275_firmware \<Rightarrow> string \<Rightarrow> 'f world \<Rightarrow> int \<times> grub_ieee1275_phandle_t \<times> 'f world" where
  "grub_ieee1275_finddevice fw path s =
     (case fw_finddevice fw path (firmware_state s) of
        (rc, ph, f) \<Rightarrow>
          (rc, ph, s\<lparr>firmware_state := f, trace := trace s @ [Ev_finddevice path]\<rparr>))"

text \<open>
  A \<open>char buffer[n]\<close> after a collaborator filled it: the first \<open>n\<close> bytes of what the
  collaborator reports; a collaborator reporting fewer than \<open>n\<close> bytes stands for a
  buffer whose remaining bytes are NUL.
\<close>

definition char_buffer :: "nat \<Rightarrow> string \<Rightarrow> string" where
  "char_buffer n bytes = take n (bytes @ replicate n (CHR 0x00))"

text \<open>\<open>grub_ieee1275_get_property (ph, prop, buffer, sizeof (buffer), NULL)\<close>.\<close>

definition grub_ieee1275_get_property ::
  "'f ieee1275_firmware \<Rightarrow> grub_ieee1275_phandle_t \<Rightarrow> string \<Rightarrow> nat \<Rightarrow> 'f world
     \<Rightarrow> int \<times> string \<times> 'f world" where
  "grub_ieee1275_get_property fw ph prop n s =
     (case fw_get_property fw ph prop n (firmware_state s) of
        (rc, bytes, f) \<Rightarrow>
          (rc, char_buffer n bytes,
           s\<lparr>firmware_state := f, trace := trace s @ [Ev_get_property ph prop n]\<rparr>))"

text \<open>\<open>IEEE1275_CALL_ENTRY_FN (&args)\<close>: the result, the two output cells, the world.\<close>

definition IEEE1275_CALL_ENTRY_FN ::
  "'f ieee1275_firmware \<Rightarrow> ieee1275_args \<Rightarrow> 'f world
     \<Rightarrow> int \<times> grub_ieee1275_cell_t \<times> grub_ieee1275_cell_t \<times> 'f world" where
  "IEEE1275_CALL_ENTRY_FN fw args s =
     (case fw_entry_fn fw args (mem s) (firmware_state s) of
        (rc, (out1, out2), m, f) \<Rightarrow>
          (rc, out1, out2,
           s\<lparr>mem := m, firmware_state := f, trace := trace s @ [Ev_call_entry args]\<rparr>))"

text \<open>
  Modelled from the spec: \<open>grub_error\<close> is defined in grub-core/kern/err.c, which is not
  among the sources. The spec (4.3, 7) has it surface the message to the user and fail
  with the given error kind.
\<close>

definition grub_error :: "grub_err_t \<Rightarrow> string \<Rightarrow> 'f world \<Rightarrow> grub_err_t \<times> 'f world" where
  "grub_error n msg s = (n, s\<lparr>trace := trace s @ [Ev_grub_error n msg]\<rparr>)"

text \<open>
  Modelled from the spec: \<open>grub_strcmp\<close> is defined in grub-core/kern/misc.c, which is
  not among the sources. The spec (6) has the compatibility string "compared exactly".
  Both arguments are C strings: reading stops at the first NUL, and the end of a list
  reads as the terminating NUL. The result is the difference of the first two bytes that
  differ, 0 when there is none.
\<close>

fun grub_strcmp :: "string \<Rightarrow> string \<Rightarrow> int" where
  "grub_strcmp [] [] = 0"
| "grub_strcmp [] (b # bs) = - of_char b"
| "grub_strcmp (a # as) [] = of_char a"
| "grub_strcmp (a # as) (b # bs) =
     (if a = CHR 0x00 \<or> b = CHR 0x00 \<or> a \<noteq> b then of_char a - of_char b
      else grub_strcmp as bs)"

text \<open>
  Modelled from the spec: \<open>grub_memcpy\<close> is declared in grub/misc.h, which is not among
  the sources. The spec (4.4) has it copy exactly \<open>n\<close> bytes from the source region to
  the destination region; every source byte is read before the copy changes it.
\<close>

definition grub_memcpy :: "grub_addr_t \<Rightarrow> grub_addr_t \<Rightarrow> grub_size_t \<Rightarrow> memory \<Rightarrow> memory" where
  "grub_memcpy dest src n m =
     (\<lambda>a. if unat (a - dest) < unat n then m (src + (a - dest)) else m a)"

subsection \<open>The file's functions\<close>

definition tpm_get_tpm_version :: "'f ieee1275_firmware \<Rightarrow> 'f world \<Rightarrow> 'f world" where
  "tpm_get_tpm_version fw s =
     (case grub_ieee1275_finddevice fw ''/vdevice/vtpm'' s of
        (rc1, vtpm, s1) \<Rightarrow>
          if rc1 \<noteq> 0 then s1
          else
            (case grub_ieee1275_get_property fw vtpm ''compatible'' 20 s1 of
               (rc2, buffer, s2) \<Rightarrow>
                 if rc2 \<noteq> 0 then s2
                 else if grub_strcmp buffer ''IBM,vtpm20'' \<noteq> 0 then s2
                 else s2\<lparr>grub_ieee1275_tpm_version := 2\<rparr>))"

definition grub_ieee1275_tpm_init :: "'f ieee1275_firmware \<Rightarrow> 'f world \<Rightarrow> grub_err_t \<times> 'f world" where
  "grub_ieee1275_tpm_init fw s =
     (if init_success s = 0 then
        (case grub_ieee1275_open fw ''/vdevice/vtpm'' s of
           (rc, s1) \<Rightarrow>
             if rc < 0 then
               (GRUB_ERR_UNKNOWN_DEVICE, s1\<lparr>grub_ieee1275_tpm_ihandle := IEEE1275_IHANDLE_INVALID\<rparr>)
             else (GRUB_ERR_NONE, tpm_get_tpm_version fw (s1\<lparr>init_success := 1\<rparr>)))
      else (GRUB_ERR_NONE, s))"

text \<open>The frame \<open>grub_tcg2_get_max_output_size\<close> builds once initialisation succeeded.\<close>

definition get_maximum_cmd_size_args :: "'f world \<Rightarrow> ieee1275_args" where
  "get_maximum_cmd_size_args s =
     Tpm_get_maximum_cmd_size (INIT_IEEE1275_COMMON ''call-method'' 2 2)
       ''get-maximum-cmd-size'' (grub_ieee1275_tpm_ihandle s)"

text \<open>
  \<open>grub_tcg2_get_max_output_size (&size)\<close>, where the caller's variable holds \<open>sz\<close>:
  the error code, the content of the caller's variable after the call, the world.
\<close>

definition grub_tcg2_get_max_output_size ::
  "'f ieee1275_firmware \<Rightarrow> grub_size_t \<Rightarrow> 'f world \<Rightarrow> grub_err_t \<times> grub_size_t \<times> 'f world" where
  "grub_tcg2_get_max_output_size fw sz s =
     (case grub_ieee1275_tpm_init fw s of
        (err, s1) \<Rightarrow>
          if err \<noteq> GRUB_ERR_NONE then (err, sz, s1)
          else
            (case IEEE1275_CALL_ENTRY_FN fw (get_maximum_cmd_size_args s1) s1 of
               (rc, catch_result, args_size, s2) \<Rightarrow>
                 if rc = - 1 then (GRUB_ERR_INVALID_COMMAND, sz, s2)
                 else if catch_result \<noteq> 0 then
                   (if get_max_output_size_error_displayed s2 = 0 then
                      (case grub_error GRUB_ERR_BAD_DEVICE
                              (''get-maximum-cmd-size failed: Firmware is likely too old.'' @ [CHR 0x0A])
                              (s2\<lparr>get_max_output_size_error_displayed :=
                                     get_max_output_size_error_displayed s2 + 1\<rparr>) of
                         (e, s3) \<Rightarrow> (e, sz, s3))
                    else (GRUB_ERR_INVALID_COMMAND, sz, s2))
                 else (GRUB_ERR_NONE, args_size, s2)))"

text \<open>The frame \<open>grub_tcg2_submit_command\<close> builds once initialisation succeeded.\<close>

definition pass_through_to_tpm_args :: "grub_size_t \<Rightarrow> grub_addr_t \<Rightarrow> 'f world \<Rightarrow> ieee1275_args" where
  "pass_through_to_tpm_args input_size input s =
     Tpm_pass_through_to_tpm (INIT_IEEE1275_COMMON ''call-method'' 4 2)
       ''pass-through-to-tpm'' (grub_ieee1275_tpm_ihandle s) input_size input"

definition grub_tcg2_submit_command ::
  "'f ieee1275_firmware \<Rightarrow> grub_size_t \<Rightarrow> grub_addr_t \<Rightarrow> grub_size_t \<Rightarrow> grub_addr_t \<Rightarrow> 'f world
     \<Rightarrow> grub_err_t \<times> 'f world" where
  "grub_tcg2_submit_command fw input_size input output_size output s =
     (if input_size = 0 \<or> input = NULL \<or> output_size = 0 \<or> output = NULL then
        (GRUB_ERR_BAD_ARGUMENT, s)
      else
        (case grub_ieee1275_tpm_init fw s of
           (err, s1) \<Rightarrow>
             if err \<noteq> GRUB_ERR_NONE then (err, s1)
             else
               (case IEEE1275_CALL_ENTRY_FN fw (pass_through_to_tpm_args input_size input s1) s1 of
                  (rc, catch_result, resp_size, s2) \<Rightarrow>
                    if rc = - 1 then (GRUB_ERR_INVALID_COMMAND, s2)
                    else if catch_result \<noteq> 0 then
                      (if submit_command_error_displayed s2 = 0 then
                         grub_error GRUB_ERR_BAD_DEVICE
                           (''pass-through-to-tpm failed: Firmware is likely too old.'' @ [CHR 0x0A])
                           (s2\<lparr>submit_command_error_displayed :=
                                  submit_command_error_displayed s2 + 1\<rparr>)
                       else (GRUB_ERR_INVALID_COMMAND, s2))
                    else (GRUB_ERR_NONE, s2\<lparr>mem := grub_memcpy output input resp_size (mem s2)\<rparr>))))"

subsection \<open>Observations on the log\<close>

fun is_open :: "event \<Rightarrow> bool" where
  "is_open (Ev_open p) = True"
| "is_open e = False"

fun is_call_entry :: "event \<Rightarrow> bool" where
  "is_call_entry (Ev_call_entry a) = True"
| "is_call_entry e = False"

fun is_grub_error :: "event \<Rightarrow> bool" where
  "is_grub_error (Ev_grub_error n msg) = True"
| "is_grub_error e = False"

definition open_attempts :: "'f world \<Rightarrow> nat" where
  "open_attempts s = length (filter is_open (trace s))"

definition dispatch_count :: "'f world \<Rightarrow> nat" where
  "dispatch_count s = length (filter is_call_entry (trace s))"

text \<open>The warnings surfaced to the user so far: the calls to \<open>grub_error\<close>.\<close>

definition warnings :: "'f world \<Rightarrow> event list" where
  "warnings s = filter is_grub_error (trace s)"


subsection \<open>Callers: sequences of calls to the public operations\<close>

text \<open>
  A boot session calls the three public operations in any order, on the one
  process-wide state. \<open>run\<close> executes such a sequence and records every step: the state
  before the call, the call, the error code returned, the state after it.
\<close>

datatype tpm_call =
    Call_tpm_init
  | Call_get_max_output_size grub_size_t
  | Call_submit_command grub_size_t grub_addr_t grub_size_t grub_addr_t

fun do_call :: "'f ieee1275_firmware \<Rightarrow> tpm_call \<Rightarrow> 'f world \<Rightarrow> grub_err_t \<times> 'f world" where
  "do_call fw Call_tpm_init s = grub_ieee1275_tpm_init fw s"
| "do_call fw (Call_get_max_output_size sz) s =
     (case grub_tcg2_get_max_output_size fw sz s of (e, sz', s') \<Rightarrow> (e, s'))"
| "do_call fw (Call_submit_command input_size input output_size output) s =
     grub_tcg2_submit_command fw input_size input output_size output s"

record 'f step =
  step_pre :: "'f world"
  step_call :: tpm_call
  step_err :: grub_err_t
  step_post :: "'f world"

fun run :: "'f ieee1275_firmware \<Rightarrow> tpm_call list \<Rightarrow> 'f world \<Rightarrow> 'f step list" where
  "run fw [] s = []"
| "run fw (c # cs) s =
     (case do_call fw c s of
        (e, s') \<Rightarrow> \<lparr>step_pre = s, step_call = c, step_err = e, step_post = s'\<rparr> # run fw cs s')"

text \<open>The warnings surfaced during one step.\<close>

definition step_warnings :: "'f step \<Rightarrow> event list" where
  "step_warnings st = drop (length (warnings (step_pre st))) (warnings (step_post st))"

fun is_get_max_output_size :: "tpm_call \<Rightarrow> bool" where
  "is_get_max_output_size (Call_get_max_output_size sz) = True"
| "is_get_max_output_size c = False"

fun is_submit_command :: "tpm_call \<Rightarrow> bool" where
  "is_submit_command (Call_submit_command input_size input output_size output) = True"
| "is_submit_command c = False"

text \<open>
  The arguments of a call pass the argument check of the operation (only
  \<open>grub_tcg2_submit_command\<close> has one).
\<close>

fun arguments_accepted :: "tpm_call \<Rightarrow> bool" where
  "arguments_accepted (Call_submit_command input_size input output_size output) =
     (input_size \<noteq> 0 \<and> input \<noteq> NULL \<and> output_size \<noteq> 0 \<and> output \<noteq> NULL)"
| "arguments_accepted c = True"

text \<open>The open of the virtual TPM node would fail in this state.\<close>

definition open_fails :: "'f ieee1275_firmware \<Rightarrow> 'f world \<Rightarrow> bool" where
  "open_fails fw s =
     (fst (fw_open fw ''/vdevice/vtpm'' (grub_ieee1275_tpm_ihandle s) (firmware_state s)) < 0)"

text \<open>
  A call made in state \<open>s\<close> sees the catch flag set after a successful dispatch: its
  arguments are accepted, initialisation succeeds, the entry point does not return -1,
  and the \<open>catch_result\<close> cell it hands back is not zero.
\<close>

fun catch_flag_seen :: "'f ieee1275_firmware \<Rightarrow> tpm_call \<Rightarrow> 'f world \<Rightarrow> bool" where
  "catch_flag_seen fw Call_tpm_init s = False"
| "catch_flag_seen fw (Call_get_max_output_size sz) s =
     (case grub_ieee1275_tpm_init fw s of
        (err, s1) \<Rightarrow>
          err = GRUB_ERR_NONE \<and>
          (case IEEE1275_CALL_ENTRY_FN fw (get_maximum_cmd_size_args s1) s1 of
             (rc, catch_result, out2, s2) \<Rightarrow> rc \<noteq> - 1 \<and> catch_result \<noteq> 0))"
| "catch_flag_seen fw (Call_submit_command input_size input output_size output) s =
     (input_size \<noteq> 0 \<and> input \<noteq> NULL \<and> output_size \<noteq> 0 \<and> output \<noteq> NULL \<and>
      (case grub_ieee1275_tpm_init fw s of
         (err, s1) \<Rightarrow>
           err = GRUB_ERR_NONE \<and>
           (case IEEE1275_CALL_ENTRY_FN fw (pass_through_to_tpm_args input_size input s1) s1 of
              (rc, catch_result, out2, s2) \<Rightarrow> rc \<noteq> - 1 \<and> catch_result \<noteq> 0)))"

subsection \<open>Firmware test doubles\<close>

text \<open>A machine without a virtual TPM: the open fails, and so does everything else.\<close>

definition no_vtpm :: "unit ieee1275_firmware" where
  "no_vtpm =
     \<lparr>fw_open = (\<lambda>path h f. (- 1, h, f)),
      fw_finddevice = (\<lambda>path f. (- 1, 0, f)),
      fw_get_property = (\<lambda>ph prop n f. (- 1, [], f)),
      fw_entry_fn = (\<lambda>args m f. (- 1, (0, 0), m, f))\<rparr>"

text \<open>
  A virtual TPM 2.0 under a current firmware: the open yields handle 7, the node
  resolves, its "compatible" property is "IBM,vtpm20", the maximum command size is
  4096, and a command passed through is answered with the two bytes 0x80 0x01 written
  over the start of the command buffer.
\<close>

definition vtpm20 :: "unit ieee1275_firmware" where
  "vtpm20 =
     \<lparr>fw_open = (\<lambda>path h f. (0, 7, f)),
      fw_finddevice = (\<lambda>path f. (0, 3, f)),
      fw_get_property = (\<lambda>ph prop n f. (0, ''IBM,vtpm20'' @ [CHR 0x00], f)),
      fw_entry_fn = (\<lambda>args m f.
        (case args of
           Tpm_get_maximum_cmd_size hdr method ih \<Rightarrow> (0, (0, 4096), m, f)
         | Tpm_pass_through_to_tpm hdr method ih buf_size buf_addr \<Rightarrow>
             (0, (0, 2), m(buf_addr := 0x80, buf_addr + 1 := 0x01), f)))\<rparr>"


text \<open>The same device under a firmware too old to know either method: the catch flag is set.\<close>

definition old_firmware :: "unit ieee1275_firmware" where
  "old_firmware = vtpm20\<lparr>fw_entry_fn := (\<lambda>args m f. (0, (1, 0), m, f))\<rparr>"

text \<open>
  The same device when the entry point itself fails; the output cells hold leftovers.
\<close>

definition failing_entry :: "unit ieee1275_firmware" where
  "failing_entry = vtpm20\<lparr>fw_entry_fn := (\<lambda>args m f. (- 1, (0, 4096), m, f))\<rparr>"

text \<open>
  A virtual TPM that is not there at the first open and is there from the second on;
  the firmware state counts the opens.
\<close>

definition late_vtpm :: "nat ieee1275_firmware" where
  "late_vtpm =
     \<lparr>fw_open = (\<lambda>path h f. if f = 0 then (- 1, h, Suc f) else (0, 7, Suc f)),
      fw_finddevice = (\<lambda>path f. (0, 3, f)),
      fw_get_property = (\<lambda>ph prop n f. (0, ''IBM,vtpm20'' @ [CHR 0x00], f)),
      fw_entry_fn = (\<lambda>args m f. (0, (0, 4096), m, f))\<rparr>"

text \<open>The same late device when the entry point itself fails.\<close>

definition late_vtpm_failing_entry :: "nat ieee1275_firmware" where
  "late_vtpm_failing_entry = late_vtpm\<lparr>fw_entry_fn := (\<lambda>args m f. (- 1, (0, 0), m, f))\<rparr>"


text \<open>A memory image: zero everywhere but a four-byte command at address 0x1000.\<close>

definition command_memory :: memory where
  "command_memory = (\<lambda>a. 0)(0x1000 := 0x80, 0x1001 := 0x02, 0x1002 := 0x11, 0x1003 := 0x22)"

section \<open>Auxiliary facts\<close>

lemmas firmware_call_defs =
  grub_ieee1275_open_def grub_ieee1275_finddevice_def grub_ieee1275_get_property_def
  IEEE1275_CALL_ENTRY_FN_def grub_error_def



lemma tpm_get_tpm_version_frame:
  "grub_ieee1275_tpm_ihandle (tpm_get_tpm_version fw s) = grub_ieee1275_tpm_ihandle s"
  "init_success (tpm_get_tpm_version fw s) = init_success s"
  "get_max_output_size_error_displayed (tpm_get_tpm_version fw s) = get_max_output_size_error_displayed s"
  "submit_command_error_displayed (tpm_get_tpm_version fw s) = submit_command_error_displayed s"
  "mem (tpm_get_tpm_version fw s) = mem s"
  "filter is_open (trace (tpm_get_tpm_version fw s)) = filter is_open (trace s)"
  "filter is_call_entry (trace (tpm_get_tpm_version fw s)) = filter is_call_entry (trace s)"
  "filter is_grub_error (trace (tpm_get_tpm_version fw s)) = filter is_grub_error (trace s)"
  by (simp_all add: tpm_get_tpm_version_def firmware_call_defs case_prod_beta)

lemma tpm_init_frame:
  "get_max_output_size_error_displayed (snd (grub_ieee1275_tpm_init fw s)) = get_max_output_size_error_displayed s"
  "submit_command_error_displayed (snd (grub_ieee1275_tpm_init fw s)) = submit_command_error_displayed s"
  "mem (snd (grub_ieee1275_tpm_init fw s)) = mem s"
  "dispatch_count (snd (grub_ieee1275_tpm_init fw s)) = dispatch_count s"
  "warnings (snd (grub_ieee1275_tpm_init fw s)) = warnings s"
  by (simp_all add: grub_ieee1275_tpm_init_def grub_ieee1275_open_def tpm_get_tpm_version_frame
      dispatch_count_def warnings_def case_prod_beta)

lemmas tcg2_defs =
  grub_ieee1275_tpm_init_def tpm_get_tpm_version_def grub_tcg2_get_max_output_size_def
  grub_tcg2_submit_command_def firmware_call_defs get_maximum_cmd_size_args_def
  pass_through_to_tpm_args_def INIT_IEEE1275_COMMON_def char_buffer_def NULL_def
  IEEE1275_IHANDLE_INVALID_def

lemma grub_memcpy_copied:
  "i < unat n \<Longrightarrow> grub_memcpy dest src n m (dest + of_nat i) = m (src + of_nat i)"
proof -
  assume "i < unat n"
  moreover have "unat n < 2 ^ 32"
    using unsigned_less [of n] by simp
  ultimately have "unat (of_nat i :: 32 word) = i"
    by (simp add: unat_of_nat)
  with \<open>i < unat n\<close> show ?thesis
    by (simp add: grub_memcpy_def)
qed

lemma grub_memcpy_elsewhere:
  "unat n \<le> unat (a - dest) \<Longrightarrow> grub_memcpy dest src n m a = m a"
  by (simp add: grub_memcpy_def)

lemma tpm_init_latched:
  "init_success s \<noteq> 0 \<Longrightarrow> grub_ieee1275_tpm_init fw s = (GRUB_ERR_NONE, s)"
  by (simp add: grub_ieee1275_tpm_init_def)

lemma tpm_init_success_latches:
  "grub_ieee1275_tpm_init fw s = (GRUB_ERR_NONE, s1) \<Longrightarrow> init_success s1 \<noteq> 0"
  by (auto simp: grub_ieee1275_tpm_init_def tpm_get_tpm_version_frame case_prod_beta
      split: if_splits)

lemma do_call_latched:
  assumes "init_success s \<noteq> 0"
  shows "init_success (snd (do_call fw c s)) = init_success s"
    and "grub_ieee1275_tpm_ihandle (snd (do_call fw c s)) = grub_ieee1275_tpm_ihandle s"
    and "grub_ieee1275_tpm_version (snd (do_call fw c s)) = grub_ieee1275_tpm_version s"
    and "open_attempts (snd (do_call fw c s)) = open_attempts s"
  using assms
  by (cases c; simp add: tpm_init_latched grub_tcg2_get_max_output_size_def
      grub_tcg2_submit_command_def IEEE1275_CALL_ENTRY_FN_def grub_error_def
      open_attempts_def case_prod_beta)+

lemma run_latched:
  assumes "init_success s \<noteq> 0" and "st \<in> set (run fw cs s)"
  shows "init_success (step_pre st) = init_success s
         \<and> init_success (step_post st) = init_success s
         \<and> grub_ieee1275_tpm_ihandle (step_post st) = grub_ieee1275_tpm_ihandle s
         \<and> grub_ieee1275_tpm_version (step_post st) = grub_ieee1275_tpm_version s
         \<and> open_attempts (step_post st) = open_attempts s
         \<and> (step_err st, step_post st) = do_call fw (step_call st) (step_pre st)"
  using assms
proof (induction cs arbitrary: s)
  case Nil
  then show ?case by simp
next
  case (Cons c cs)
  obtain e s' where d: "do_call fw c s = (e, s')"
    by (cases "do_call fw c s")
  have s': "init_success s' = init_success s"
    "grub_ieee1275_tpm_ihandle s' = grub_ieee1275_tpm_ihandle s"
    "grub_ieee1275_tpm_version s' = grub_ieee1275_tpm_version s"
    "open_attempts s' = open_attempts s"
    using do_call_latched [OF Cons.prems(1), of fw c] d by simp_all
  from Cons.prems(2) d consider
    "st = \<lparr>step_pre = s, step_call = c, step_err = e, step_post = s'\<rparr>" | "st \<in> set (run fw cs s')"
    by auto
  then show ?case
  proof cases
    case 1
    then show ?thesis using d s' by simp
  next
    case 2
    have "init_success s' \<noteq> 0" using s' Cons.prems(1) by simp
    from Cons.IH [OF this 2] show ?thesis using s' by simp
  qed
qed

lemma do_call_open_fails:
  assumes "init_success s = 0" and "open_fails fw s" and "arguments_accepted c"
  shows "fst (do_call fw c s) = GRUB_ERR_UNKNOWN_DEVICE
         \<and> grub_ieee1275_tpm_ihandle (snd (do_call fw c s)) = IEEE1275_IHANDLE_INVALID
         \<and> init_success (snd (do_call fw c s)) = 0
         \<and> open_attempts (snd (do_call fw c s)) = open_attempts s + 1"
proof -
  have i: "grub_ieee1275_tpm_init fw s =
      (GRUB_ERR_UNKNOWN_DEVICE,
       snd (grub_ieee1275_open fw ''/vdevice/vtpm'' s)
         \<lparr>grub_ieee1275_tpm_ihandle := IEEE1275_IHANDLE_INVALID\<rparr>)"
    using assms(1,2)
    by (simp add: grub_ieee1275_tpm_init_def grub_ieee1275_open_def open_fails_def case_prod_beta)
  show ?thesis
    using assms(1,3)
    by (cases c; simp add: i grub_tcg2_get_max_output_size_def grub_tcg2_submit_command_def
        grub_ieee1275_open_def open_attempts_def case_prod_beta)
qed

lemma get_max_output_size_flag_steps:
  "\<not> (is_get_max_output_size c \<and> catch_flag_seen fw c s) \<Longrightarrow>
     get_max_output_size_error_displayed (snd (do_call fw c s)) = get_max_output_size_error_displayed s"
  "is_get_max_output_size c \<and> catch_flag_seen fw c s \<Longrightarrow> get_max_output_size_error_displayed s = 0 \<Longrightarrow>
     fst (do_call fw c s) = GRUB_ERR_BAD_DEVICE
     \<and> warnings (snd (do_call fw c s)) = warnings s @
         [Ev_grub_error GRUB_ERR_BAD_DEVICE
            (''get-maximum-cmd-size failed: Firmware is likely too old.'' @ [CHR 0x0A])]
     \<and> get_max_output_size_error_displayed (snd (do_call fw c s)) \<noteq> 0"
  "is_get_max_output_size c \<and> catch_flag_seen fw c s \<Longrightarrow> get_max_output_size_error_displayed s \<noteq> 0 \<Longrightarrow>
     fst (do_call fw c s) = GRUB_ERR_INVALID_COMMAND
     \<and> warnings (snd (do_call fw c s)) = warnings s
     \<and> get_max_output_size_error_displayed (snd (do_call fw c s)) \<noteq> 0"
proof -
  note f = tpm_init_frame [of fw s]
  have w: "filter is_grub_error (trace (snd (grub_ieee1275_tpm_init fw s))) = filter is_grub_error (trace s)"
    using f(5) by (simp add: warnings_def)
  show "\<not> (is_get_max_output_size c \<and> catch_flag_seen fw c s) \<Longrightarrow>
     get_max_output_size_error_displayed (snd (do_call fw c s)) = get_max_output_size_error_displayed s"
    by (cases c; auto simp: f grub_tcg2_get_max_output_size_def grub_tcg2_submit_command_def
        IEEE1275_CALL_ENTRY_FN_def grub_error_def case_prod_beta)
  show "is_get_max_output_size c \<and> catch_flag_seen fw c s \<Longrightarrow> get_max_output_size_error_displayed s = 0 \<Longrightarrow>
     fst (do_call fw c s) = GRUB_ERR_BAD_DEVICE
     \<and> warnings (snd (do_call fw c s)) = warnings s @
         [Ev_grub_error GRUB_ERR_BAD_DEVICE
            (''get-maximum-cmd-size failed: Firmware is likely too old.'' @ [CHR 0x0A])]
     \<and> get_max_output_size_error_displayed (snd (do_call fw c s)) \<noteq> 0"
    by (cases c; auto simp: f w warnings_def grub_tcg2_get_max_output_size_def
        IEEE1275_CALL_ENTRY_FN_def grub_error_def case_prod_beta)
  show "is_get_max_output_size c \<and> catch_flag_seen fw c s \<Longrightarrow> get_max_output_size_error_displayed s \<noteq> 0 \<Longrightarrow>
     fst (do_call fw c s) = GRUB_ERR_INVALID_COMMAND
     \<and> warnings (snd (do_call fw c s)) = warnings s
     \<and> get_max_output_size_error_displayed (snd (do_call fw c s)) \<noteq> 0"
    by (cases c; auto simp: f w warnings_def grub_tcg2_get_max_output_size_def
        IEEE1275_CALL_ENTRY_FN_def grub_error_def case_prod_beta)
qed

lemma submit_command_flag_steps:
  "\<not> (is_submit_command c \<and> catch_flag_seen fw c s) \<Longrightarrow>
     submit_command_error_displayed (snd (do_call fw c s)) = submit_command_error_displayed s"
  "is_submit_command c \<and> catch_flag_seen fw c s \<Longrightarrow> submit_command_error_displayed s = 0 \<Longrightarrow>
     fst (do_call fw c s) = GRUB_ERR_BAD_DEVICE
     \<and> warnings (snd (do_call fw c s)) = warnings s @
         [Ev_grub_error GRUB_ERR_BAD_DEVICE
            (''pass-through-to-tpm failed: Firmware is likely too old.'' @ [CHR 0x0A])]
     \<and> submit_command_error_displayed (snd (do_call fw c s)) \<noteq> 0"
  "is_submit_command c \<and> catch_flag_seen fw c s \<Longrightarrow> submit_command_error_displayed s \<noteq> 0 \<Longrightarrow>
     fst (do_call fw c s) = GRUB_ERR_INVALID_COMMAND
     \<and> warnings (snd (do_call fw c s)) = warnings s
     \<and> submit_command_error_displayed (snd (do_call fw c s)) \<noteq> 0"
proof -
  note f = tpm_init_frame [of fw s]
  have w: "filter is_grub_error (trace (snd (grub_ieee1275_tpm_init fw s))) = filter is_grub_error (trace s)"
    using f(5) by (simp add: warnings_def)
  show "\<not> (is_submit_command c \<and> catch_flag_seen fw c s) \<Longrightarrow>
     submit_command_error_displayed (snd (do_call fw c s)) = submit_command_error_displayed s"
    by (cases c; auto simp: f grub_tcg2_get_max_output_size_def grub_tcg2_submit_command_def
        IEEE1275_CALL_ENTRY_FN_def grub_error_def case_prod_beta)
  show "is_submit_command c \<and> catch_flag_seen fw c s \<Longrightarrow> submit_command_error_displayed s = 0 \<Longrightarrow>
     fst (do_call fw c s) = GRUB_ERR_BAD_DEVICE
     \<and> warnings (snd (do_call fw c s)) = warnings s @
         [Ev_grub_error GRUB_ERR_BAD_DEVICE
            (''pass-through-to-tpm failed: Firmware is likely too old.'' @ [CHR 0x0A])]
     \<and> submit_command_error_displayed (snd (do_call fw c s)) \<noteq> 0"
    by (cases c; auto simp: f w warnings_def grub_tcg2_submit_command_def
        IEEE1275_CALL_ENTRY_FN_def grub_error_def case_prod_beta)
  show "is_submit_command c \<and> catch_flag_seen fw c s \<Longrightarrow> submit_command_error_displayed s \<noteq> 0 \<Longrightarrow>
     fst (do_call fw c s) = GRUB_ERR_INVALID_COMMAND
     \<and> warnings (snd (do_call fw c s)) = warnings s
     \<and> submit_command_error_displayed (snd (do_call fw c s)) \<noteq> 0"
    by (cases c; auto simp: f w warnings_def grub_tcg2_submit_command_def
        IEEE1275_CALL_ENTRY_FN_def grub_error_def case_prod_beta)
qed

lemma run_hits_later:
  fixes hit :: "tpm_call \<Rightarrow> 'f world \<Rightarrow> bool" and flag :: "'f world \<Rightarrow> int"
  assumes keep: "\<And>c s. \<not> hit c s \<Longrightarrow> flag (snd (do_call fw c s)) = flag s"
    and later: "\<And>c s. hit c s \<Longrightarrow> flag s \<noteq> 0 \<Longrightarrow>
        fst (do_call fw c s) = GRUB_ERR_INVALID_COMMAND
        \<and> warnings (snd (do_call fw c s)) = warnings s
        \<and> flag (snd (do_call fw c s)) \<noteq> 0"
    and nz: "flag s \<noteq> 0"
  shows "\<forall>st \<in> set (filter (\<lambda>st. hit (step_call st) (step_pre st)) (run fw cs s)).
           step_err st = GRUB_ERR_INVALID_COMMAND \<and> step_warnings st = []"
  using nz
proof (induction cs arbitrary: s)
  case Nil
  then show ?case by simp
next
  case (Cons c cs)
  obtain e s' where d: "do_call fw c s = (e, s')"
    by (cases "do_call fw c s")
  show ?case
  proof (cases "hit c s")
    case True
    from later [OF True Cons.prems] d
    have h: "e = GRUB_ERR_INVALID_COMMAND" "warnings s' = warnings s" "flag s' \<noteq> 0"
      by simp_all
    from Cons.IH [OF h(3)] show ?thesis
      using True d h by (simp add: step_warnings_def)
  next
    case False
    from keep [OF False] d Cons.prems have "flag s' \<noteq> 0"
      by simp
    from Cons.IH [OF this] show ?thesis
      using False d by simp
  qed
qed

lemma run_hits_first:
  fixes hit :: "tpm_call \<Rightarrow> 'f world \<Rightarrow> bool" and flag :: "'f world \<Rightarrow> int"
  assumes keep: "\<And>c s. \<not> hit c s \<Longrightarrow> flag (snd (do_call fw c s)) = flag s"
    and first: "\<And>c s. hit c s \<Longrightarrow> flag s = 0 \<Longrightarrow>
        fst (do_call fw c s) = GRUB_ERR_BAD_DEVICE
        \<and> warnings (snd (do_call fw c s)) = warnings s @ [w]
        \<and> flag (snd (do_call fw c s)) \<noteq> 0"
    and later: "\<And>c s. hit c s \<Longrightarrow> flag s \<noteq> 0 \<Longrightarrow>
        fst (do_call fw c s) = GRUB_ERR_INVALID_COMMAND
        \<and> warnings (snd (do_call fw c s)) = warnings s
        \<and> flag (snd (do_call fw c s)) \<noteq> 0"
    and clear: "flag s = 0"
  shows "case filter (\<lambda>st. hit (step_call st) (step_pre st)) (run fw cs s) of
           [] \<Rightarrow> True
         | st # sts \<Rightarrow>
             step_err st = GRUB_ERR_BAD_DEVICE \<and> step_warnings st = [w]
             \<and> (\<forall>st' \<in> set sts. step_err st' = GRUB_ERR_INVALID_COMMAND \<and> step_warnings st' = [])"
  using clear
proof (induction cs arbitrary: s)
  case Nil
  then show ?case by simp
next
  case (Cons c cs)
  obtain e s' where d: "do_call fw c s = (e, s')"
    by (cases "do_call fw c s")
  show ?case
  proof (cases "hit c s")
    case True
    from first [OF True Cons.prems] d
    have h: "e = GRUB_ERR_BAD_DEVICE" "warnings s' = warnings s @ [w]" "flag s' \<noteq> 0"
      by simp_all
    have "\<forall>st \<in> set (filter (\<lambda>st. hit (step_call st) (step_pre st)) (run fw cs s')).
           step_err st = GRUB_ERR_INVALID_COMMAND \<and> step_warnings st = []"
      using keep later h(3) by (rule run_hits_later)
    then show ?thesis
      using True d h by (simp add: step_warnings_def)
  next
    case False
    from keep [OF False] d Cons.prems have "flag s' = 0"
      by simp
    from Cons.IH [OF this] show ?thesis
      using False d by simp
  qed
qed

lemma run_step:
  "st \<in> set (run fw cs s) \<Longrightarrow> (step_err st, step_post st) = do_call fw (step_call st) (step_pre st)"
proof (induction cs arbitrary: s)
  case Nil
  then show ?case by simp
next
  case (Cons c cs)
  obtain e s' where d: "do_call fw c s = (e, s')"
    by (cases "do_call fw c s")
  from Cons.prems d consider
    "st = \<lparr>step_pre = s, step_call = c, step_err = e, step_post = s'\<rparr>" | "st \<in> set (run fw cs s')"
    by auto
  then show ?case
  proof cases
    case 1
    then show ?thesis using d by simp
  next
    case 2
    then show ?thesis by (rule Cons.IH)
  qed
qed

lemma tpm_init_open_succeeds:
  assumes "init_success s = 0" and "\<not> open_fails fw s"
  shows "fst (grub_ieee1275_tpm_init fw s) = GRUB_ERR_NONE"
    and "init_success (snd (grub_ieee1275_tpm_init fw s)) = 1"
    and "open_attempts (snd (grub_ieee1275_tpm_init fw s)) = open_attempts s + 1"
  using assms
  by (simp_all add: grub_ieee1275_tpm_init_def grub_ieee1275_open_def open_fails_def
      tpm_get_tpm_version_frame open_attempts_def case_prod_beta)

lemma do_call_open_succeeds:
  assumes "init_success s = 0" and "\<not> open_fails fw s" and "arguments_accepted c"
  shows "fst (do_call fw c s) \<noteq> GRUB_ERR_UNKNOWN_DEVICE
         \<and> init_success (snd (do_call fw c s)) = 1
         \<and> open_attempts (snd (do_call fw c s)) = open_attempts s + 1
         \<and> (c = Call_tpm_init \<longrightarrow> fst (do_call fw c s) = GRUB_ERR_NONE)
         \<and> (c \<noteq> Call_tpm_init \<longrightarrow>
              dispatch_count (snd (do_call fw c s)) = dispatch_count s + 1)"
proof -
  note i = tpm_init_open_succeeds [OF assms(1,2)]
  have o: "length (filter is_open (trace (snd (grub_ieee1275_tpm_init fw s))))
             = Suc (length (filter is_open (trace s)))"
    using i(3) by (simp add: open_attempts_def)
  have dc: "length (filter is_call_entry (trace (snd (grub_ieee1275_tpm_init fw s))))
             = length (filter is_call_entry (trace s))"
    using tpm_init_frame(4) [of fw s] by (simp add: dispatch_count_def)
  show ?thesis
    using assms(3)
    by (cases c; simp add: i o dc grub_tcg2_get_max_output_size_def grub_tcg2_submit_command_def
        IEEE1275_CALL_ENTRY_FN_def grub_error_def open_attempts_def dispatch_count_def
        case_prod_beta)
qed

section \<open>Properties\<close>

text \<open>
  C4. A call to \<open>grub_tcg2_submit_command\<close> in which \<open>input_size\<close> is zero, \<open>input\<close> is
  null, \<open>output_size\<close> is zero or \<open>output\<close> is null returns
  \<open>GRUB_ERR_BAD_ARGUMENT\<close>, and the firmware entry point is not called: the log gains
  no dispatch, so a dispatch count of 0 stays at 0.
\<close>

theorem submit_command_bad_argument:
  assumes "input_size = 0 \<or> input = NULL \<or> output_size = 0 \<or> output = NULL"
  shows "fst (grub_tcg2_submit_command fw input_size input output_size output s) = GRUB_ERR_BAD_ARGUMENT
         \<and> trace (snd (grub_tcg2_submit_command fw input_size input output_size output s)) = trace s
         \<and> dispatch_count (snd (grub_tcg2_submit_command fw input_size input output_size output s))
             = dispatch_count s"
  using assms by (simp add: grub_tcg2_submit_command_def)

theorem submit_command_bad_argument_witness:
  "fst (grub_tcg2_submit_command vtpm20 0 0x1000 4 0x2000 (boot_world command_memory ())) = GRUB_ERR_BAD_ARGUMENT
   \<and> fst (grub_tcg2_submit_command vtpm20 4 NULL 4 0x2000 (boot_world command_memory ())) = GRUB_ERR_BAD_ARGUMENT
   \<and> fst (grub_tcg2_submit_command vtpm20 4 0x1000 0 0x2000 (boot_world command_memory ())) = GRUB_ERR_BAD_ARGUMENT
   \<and> fst (grub_tcg2_submit_command vtpm20 4 0x1000 4 NULL (boot_world command_memory ())) = GRUB_ERR_BAD_ARGUMENT
   \<and> dispatch_count (snd (grub_tcg2_submit_command vtpm20 4 0x1000 4 NULL (boot_world command_memory ()))) = 0"
  using submit_command_bad_argument [of 0 "0x1000" 4 "0x2000" vtpm20 "boot_world command_memory ()"]
    submit_command_bad_argument [of 4 NULL 4 "0x2000" vtpm20 "boot_world command_memory ()"]
    submit_command_bad_argument [of 4 "0x1000" 0 "0x2000" vtpm20 "boot_world command_memory ()"]
    submit_command_bad_argument [of 4 "0x1000" 4 NULL vtpm20 "boot_world command_memory ()"]
  by (simp add: dispatch_count_def boot_world_def)

text \<open>
  C10. When \<open>grub_tcg2_submit_command\<close> rejects its arguments it returns before
  \<open>grub_ieee1275_tpm_init\<close> is called: the whole process-wide state (device handle,
  interface version, initialisation flag, both warning flags, and with them memory,
  firmware and log) is exactly as before the call, and no open was attempted.
\<close>

theorem submit_command_bad_argument_no_side_effect:
  assumes "input_size = 0 \<or> input = NULL \<or> output_size = 0 \<or> output = NULL"
  shows "snd (grub_tcg2_submit_command fw input_size input output_size output s) = s
         \<and> open_attempts (snd (grub_tcg2_submit_command fw input_size input output_size output s))
             = open_attempts s"
  using assms by (simp add: grub_tcg2_submit_command_def)

theorem submit_command_bad_argument_no_side_effect_witness:
  "snd (grub_tcg2_submit_command vtpm20 4 0x1000 0 0x2000 (boot_world command_memory ()))
     = boot_world command_memory ()
   \<and> init_success (snd (grub_tcg2_submit_command vtpm20 4 0x1000 0 0x2000 (boot_world command_memory ()))) = 0
   \<and> open_attempts (snd (grub_tcg2_submit_command vtpm20 4 0x1000 0 0x2000 (boot_world command_memory ()))) = 0"
  using submit_command_bad_argument_no_side_effect [of 4 "0x1000" 0 "0x2000" vtpm20 "boot_world command_memory ()"]
  by (simp add: open_attempts_def boot_world_def)

text \<open>
  C3. When the arguments are accepted, initialisation succeeds, the entry point does not
  return -1 and the catch flag is clear, \<open>grub_tcg2_submit_command\<close> returns
  \<open>GRUB_ERR_NONE\<close> and copies exactly \<open>resp_size\<close> bytes from the input buffer, as the
  firmware left it (\<open>m'\<close>), to the output buffer: byte \<open>i\<close> of the output buffer equals
  byte \<open>i\<close> of the input buffer for every \<open>i\<close> below \<open>resp_size\<close>, and every byte of
  memory outside the first \<open>resp_size\<close> bytes of the output buffer is as the firmware
  left it.
\<close>

theorem submit_command_success:
  assumes "input_size \<noteq> 0" and "input \<noteq> NULL" and "output_size \<noteq> 0" and "output \<noteq> NULL"
    and "grub_ieee1275_tpm_init fw s = (GRUB_ERR_NONE, s1)"
    and "fw_entry_fn fw (pass_through_to_tpm_args input_size input s1) (mem s1) (firmware_state s1)
           = (rc, (0, resp_size), m', f')"
    and "rc \<noteq> - 1"
  shows "grub_tcg2_submit_command fw input_size input output_size output s =
           (GRUB_ERR_NONE,
            s1\<lparr>mem := grub_memcpy output input resp_size m', firmware_state := f',
               trace := trace s1 @ [Ev_call_entry (pass_through_to_tpm_args input_size input s1)]\<rparr>)
         \<and> (\<forall>i < unat resp_size.
               mem (snd (grub_tcg2_submit_command fw input_size input output_size output s))
                   (output + of_nat i) = m' (input + of_nat i))
         \<and> (\<forall>a. unat resp_size \<le> unat (a - output) \<longrightarrow>
               mem (snd (grub_tcg2_submit_command fw input_size input output_size output s)) a = m' a)"
proof -
  have r: "grub_tcg2_submit_command fw input_size input output_size output s =
           (GRUB_ERR_NONE,
            s1\<lparr>mem := grub_memcpy output input resp_size m', firmware_state := f',
               trace := trace s1 @ [Ev_call_entry (pass_through_to_tpm_args input_size input s1)]\<rparr>)"
    using assms by (simp add: grub_tcg2_submit_command_def IEEE1275_CALL_ENTRY_FN_def)
  show ?thesis
    by (simp add: r grub_memcpy_copied grub_memcpy_elsewhere)
qed

theorem submit_command_success_witness:
  "fst (grub_tcg2_submit_command vtpm20 4 0x1000 4 0x2000 (boot_world command_memory ())) = GRUB_ERR_NONE
   \<and> map (mem (snd (grub_tcg2_submit_command vtpm20 4 0x1000 4 0x2000 (boot_world command_memory ()))))
        [0x1000, 0x1001, 0x1002, 0x1003] = [0x80, 0x01, 0x11, 0x22]
   \<and> map (mem (snd (grub_tcg2_submit_command vtpm20 4 0x1000 4 0x2000 (boot_world command_memory ()))))
        [0x2000, 0x2001, 0x2002, 0x2003] = [0x80, 0x01, 0, 0]"
  using submit_command_success [of 4 "0x1000" 4 "0x2000" vtpm20 "boot_world command_memory ()"
      "snd (grub_ieee1275_tpm_init vtpm20 (boot_world command_memory ()))"
      0 2 "command_memory(0x1000 := 0x80, 0x1001 := 0x01)" "()"]
  by (simp add: tcg2_defs vtpm20_def boot_world_def command_memory_def grub_memcpy_def)



text \<open>
  C7. When initialisation has succeeded and the firmware entry point itself returns -1,
  \<open>grub_tcg2_get_max_output_size\<close> and \<open>grub_tcg2_submit_command\<close> return
  \<open>GRUB_ERR_INVALID_COMMAND\<close> at once. Neither output cell is read: whatever
  \<open>catch_result\<close> and \<open>res\<close> hold, the result is the same, the caller's size variable
  keeps its value, and the state is the state after initialisation with only the
  firmware's own effects (memory, firmware state) and the logged dispatch added.
\<close>

theorem entry_failure_invalid_command:
  assumes "grub_ieee1275_tpm_init fw s = (GRUB_ERR_NONE, s1)"
  shows "(fw_entry_fn fw (get_maximum_cmd_size_args s1) (mem s1) (firmware_state s1) = (- 1, (catch_result, res), m', f')
            \<longrightarrow> grub_tcg2_get_max_output_size fw sz s =
                  (GRUB_ERR_INVALID_COMMAND, sz,
                   s1\<lparr>mem := m', firmware_state := f',
                      trace := trace s1 @ [Ev_call_entry (get_maximum_cmd_size_args s1)]\<rparr>))
         \<and> (input_size \<noteq> 0 \<and> input \<noteq> NULL \<and> output_size \<noteq> 0 \<and> output \<noteq> NULL
            \<and> fw_entry_fn fw (pass_through_to_tpm_args input_size input s1) (mem s1) (firmware_state s1)
                = (- 1, (catch_result, res), m', f')
            \<longrightarrow> grub_tcg2_submit_command fw input_size input output_size output s =
                  (GRUB_ERR_INVALID_COMMAND,
                   s1\<lparr>mem := m', firmware_state := f',
                      trace := trace s1 @ [Ev_call_entry (pass_through_to_tpm_args input_size input s1)]\<rparr>))"
  using assms
  by (simp add: grub_tcg2_get_max_output_size_def grub_tcg2_submit_command_def
      IEEE1275_CALL_ENTRY_FN_def)

theorem entry_failure_invalid_command_witness:
  "fst (grub_tcg2_get_max_output_size failing_entry 5 (boot_world command_memory ()))
     = GRUB_ERR_INVALID_COMMAND
   \<and> fst (snd (grub_tcg2_get_max_output_size failing_entry 5 (boot_world command_memory ()))) = 5
   \<and> fst (grub_tcg2_submit_command failing_entry 4 0x1000 4 0x2000 (boot_world command_memory ()))
       = GRUB_ERR_INVALID_COMMAND
   \<and> warnings (snd (grub_tcg2_submit_command failing_entry 4 0x1000 4 0x2000
                        (boot_world command_memory ()))) = []"
  using entry_failure_invalid_command [of failing_entry "boot_world command_memory ()"
      "snd (grub_ieee1275_tpm_init failing_entry (boot_world command_memory ()))"
      0 4096 command_memory "()" 5 4 "0x1000" 4 "0x2000"]
  by (simp add: tcg2_defs failing_entry_def vtpm20_def boot_world_def command_memory_def warnings_def)

text \<open>
  C8. When initialisation succeeds, the entry point does not return -1 and the catch
  flag is clear, \<open>grub_tcg2_get_max_output_size\<close> returns \<open>GRUB_ERR_NONE\<close> and the
  caller's size variable holds the firmware's size cell as it is, whatever its value:
  there is no bound check. A firmware answering flag 0 and size 4096 gives success
  with size 4096.
\<close>

theorem get_max_output_size_success:
  assumes "grub_ieee1275_tpm_init fw s = (GRUB_ERR_NONE, s1)"
    and "fw_entry_fn fw (get_maximum_cmd_size_args s1) (mem s1) (firmware_state s1)
           = (rc, (0, size_cell), m', f')"
    and "rc \<noteq> - 1"
  shows "grub_tcg2_get_max_output_size fw sz s =
           (GRUB_ERR_NONE, size_cell,
            s1\<lparr>mem := m', firmware_state := f',
               trace := trace s1 @ [Ev_call_entry (get_maximum_cmd_size_args s1)]\<rparr>)"
  using assms
  by (simp add: grub_tcg2_get_max_output_size_def IEEE1275_CALL_ENTRY_FN_def)

theorem get_max_output_size_success_witness:
  "fst (grub_tcg2_get_max_output_size vtpm20 0 (boot_world command_memory ())) = GRUB_ERR_NONE
   \<and> fst (snd (grub_tcg2_get_max_output_size vtpm20 0 (boot_world command_memory ()))) = 4096"
  using get_max_output_size_success [of vtpm20 "boot_world command_memory ()"
      "snd (grub_ieee1275_tpm_init vtpm20 (boot_world command_memory ()))"
      0 4096 command_memory "()" 0]
  by (simp add: tcg2_defs vtpm20_def boot_world_def command_memory_def)





text \<open>
  C1, as amended. A failed open is not latched: only \<open>init_success\<close> records anything,
  and it is set after a successful open alone.

  First part: from a state with \<open>init_success\<close> clear, over any sequence of calls (to
  \<open>grub_ieee1275_tpm_init\<close> directly, or through \<open>grub_tcg2_get_max_output_size\<close> and
  \<open>grub_tcg2_submit_command\<close> with accepted arguments) each of which finds the open
  failing, every call returns \<open>GRUB_ERR_UNKNOWN_DEVICE\<close>, leaves the handle at the
  invalid sentinel and \<open>init_success\<close> clear, and attempts the open once more: exactly
  one attempt per call.

  Second part: in any sequence of calls whatever, a call with accepted arguments made
  while \<open>init_success\<close> is clear attempts the open exactly once. If that open fails the
  call returns \<open>GRUB_ERR_UNKNOWN_DEVICE\<close> as above. If it succeeds, \<open>init_success\<close>
  becomes 1 and the call does not return \<open>GRUB_ERR_UNKNOWN_DEVICE\<close>:
  \<open>grub_ieee1275_tpm_init\<close> itself returns \<open>GRUB_ERR_NONE\<close>, while the other two
  operations go on to dispatch to the firmware once and return what that dispatch
  gives, which need not be success.
\<close>

theorem failed_open_is_retried:
  "(init_success s = 0
      \<and> (\<forall>st \<in> set (run fw cs s). open_fails fw (step_pre st) \<and> arguments_accepted (step_call st))
    \<longrightarrow> (\<forall>st \<in> set (run fw cs s).
           step_err st = GRUB_ERR_UNKNOWN_DEVICE
           \<and> grub_ieee1275_tpm_ihandle (step_post st) = IEEE1275_IHANDLE_INVALID
           \<and> init_success (step_post st) = 0
           \<and> open_attempts (step_post st) = open_attempts (step_pre st) + 1))
   \<and> (\<forall>st \<in> set (run fw cs s).
         init_success (step_pre st) = 0 \<and> arguments_accepted (step_call st) \<longrightarrow>
           open_attempts (step_post st) = open_attempts (step_pre st) + 1
           \<and> (open_fails fw (step_pre st) \<longrightarrow>
                step_err st = GRUB_ERR_UNKNOWN_DEVICE
                \<and> grub_ieee1275_tpm_ihandle (step_post st) = IEEE1275_IHANDLE_INVALID
                \<and> init_success (step_post st) = 0)
           \<and> (\<not> open_fails fw (step_pre st) \<longrightarrow>
                step_err st \<noteq> GRUB_ERR_UNKNOWN_DEVICE
                \<and> init_success (step_post st) = 1
                \<and> (step_call st = Call_tpm_init \<longrightarrow> step_err st = GRUB_ERR_NONE)
                \<and> (step_call st \<noteq> Call_tpm_init \<longrightarrow>
                     dispatch_count (step_post st) = dispatch_count (step_pre st) + 1)))"
proof (rule conjI)
  show "init_success s = 0
      \<and> (\<forall>st \<in> set (run fw cs s). open_fails fw (step_pre st) \<and> arguments_accepted (step_call st))
    \<longrightarrow> (\<forall>st \<in> set (run fw cs s).
           step_err st = GRUB_ERR_UNKNOWN_DEVICE
           \<and> grub_ieee1275_tpm_ihandle (step_post st) = IEEE1275_IHANDLE_INVALID
           \<and> init_success (step_post st) = 0
           \<and> open_attempts (step_post st) = open_attempts (step_pre st) + 1)"
  proof (induction cs arbitrary: s)
    case Nil
    then show ?case by simp
  next
    case (Cons c cs)
    show ?case
    proof (intro impI, elim conjE)
      assume z: "init_success s = 0"
        and a: "\<forall>st \<in> set (run fw (c # cs) s).
                  open_fails fw (step_pre st) \<and> arguments_accepted (step_call st)"
      obtain e s' where d: "do_call fw c s = (e, s')"
        by (cases "do_call fw c s")
      from a d have "open_fails fw s" and "arguments_accepted c"
        by simp_all
      from do_call_open_fails [OF z this] d
      have h: "e = GRUB_ERR_UNKNOWN_DEVICE" "grub_ieee1275_tpm_ihandle s' = IEEE1275_IHANDLE_INVALID"
        "init_success s' = 0" "open_attempts s' = open_attempts s + 1"
        by simp_all
      from a d
      have "\<forall>st \<in> set (run fw cs s'). open_fails fw (step_pre st) \<and> arguments_accepted (step_call st)"
        by simp
      with Cons.IH [of s'] h(3)
      have "\<forall>st \<in> set (run fw cs s').
           step_err st = GRUB_ERR_UNKNOWN_DEVICE
           \<and> grub_ieee1275_tpm_ihandle (step_post st) = IEEE1275_IHANDLE_INVALID
           \<and> init_success (step_post st) = 0
           \<and> open_attempts (step_post st) = open_attempts (step_pre st) + 1"
        by blast
      with h d show "\<forall>st \<in> set (run fw (c # cs) s).
           step_err st = GRUB_ERR_UNKNOWN_DEVICE
           \<and> grub_ieee1275_tpm_ihandle (step_post st) = IEEE1275_IHANDLE_INVALID
           \<and> init_success (step_post st) = 0
           \<and> open_attempts (step_post st) = open_attempts (step_pre st) + 1"
        by simp
    qed
  qed
next
  show "\<forall>st \<in> set (run fw cs s).
         init_success (step_pre st) = 0 \<and> arguments_accepted (step_call st) \<longrightarrow>
           open_attempts (step_post st) = open_attempts (step_pre st) + 1
           \<and> (open_fails fw (step_pre st) \<longrightarrow>
                step_err st = GRUB_ERR_UNKNOWN_DEVICE
                \<and> grub_ieee1275_tpm_ihandle (step_post st) = IEEE1275_IHANDLE_INVALID
                \<and> init_success (step_post st) = 0)
           \<and> (\<not> open_fails fw (step_pre st) \<longrightarrow>
                step_err st \<noteq> GRUB_ERR_UNKNOWN_DEVICE
                \<and> init_success (step_post st) = 1
                \<and> (step_call st = Call_tpm_init \<longrightarrow> step_err st = GRUB_ERR_NONE)
                \<and> (step_call st \<noteq> Call_tpm_init \<longrightarrow>
                     dispatch_count (step_post st) = dispatch_count (step_pre st) + 1))"
  proof (intro ballI impI, elim conjE)
    fix st
    assume m: "st \<in> set (run fw cs s)"
      and z: "init_success (step_pre st) = 0"
      and a: "arguments_accepted (step_call st)"
    have r: "step_err st = fst (do_call fw (step_call st) (step_pre st))"
      "step_post st = snd (do_call fw (step_call st) (step_pre st))"
      using run_step [OF m] by (simp_all add: prod_eq_iff)
    show "open_attempts (step_post st) = open_attempts (step_pre st) + 1
           \<and> (open_fails fw (step_pre st) \<longrightarrow>
                step_err st = GRUB_ERR_UNKNOWN_DEVICE
                \<and> grub_ieee1275_tpm_ihandle (step_post st) = IEEE1275_IHANDLE_INVALID
                \<and> init_success (step_post st) = 0)
           \<and> (\<not> open_fails fw (step_pre st) \<longrightarrow>
                step_err st \<noteq> GRUB_ERR_UNKNOWN_DEVICE
                \<and> init_success (step_post st) = 1
                \<and> (step_call st = Call_tpm_init \<longrightarrow> step_err st = GRUB_ERR_NONE)
                \<and> (step_call st \<noteq> Call_tpm_init \<longrightarrow>
                     dispatch_count (step_post st) = dispatch_count (step_pre st) + 1))"
    proof (cases "open_fails fw (step_pre st)")
      case True
      from do_call_open_fails [OF z True a] show ?thesis
        using True by (simp add: r)
    next
      case False
      from do_call_open_succeeds [OF z False a] show ?thesis
        using False by (simp add: r)
    qed
  qed
qed

theorem failed_open_is_retried_witness:
  "map (\<lambda>st. (step_err st, init_success (step_post st), open_attempts (step_post st)))
     (run no_vtpm [Call_tpm_init, Call_get_max_output_size 0, Call_submit_command 4 0x1000 4 0x2000]
        (boot_world command_memory ()))
   = [(GRUB_ERR_UNKNOWN_DEVICE, 0, 1), (GRUB_ERR_UNKNOWN_DEVICE, 0, 2), (GRUB_ERR_UNKNOWN_DEVICE, 0, 3)]
   \<and> map (\<lambda>st. (step_err st, init_success (step_post st), open_attempts (step_post st),
                 dispatch_count (step_post st)))
     (run late_vtpm_failing_entry
        [Call_get_max_output_size 0, Call_get_max_output_size 0, Call_tpm_init]
        (boot_world command_memory 0))
   = [(GRUB_ERR_UNKNOWN_DEVICE, 0, 1, 0), (GRUB_ERR_INVALID_COMMAND, 1, 2, 1), (GRUB_ERR_NONE, 1, 2, 1)]
   \<and> map (\<lambda>st. (step_err st, init_success (step_post st), open_attempts (step_post st)))
     (run late_vtpm [Call_tpm_init, Call_tpm_init] (boot_world command_memory 0))
   = [(GRUB_ERR_UNKNOWN_DEVICE, 0, 1), (GRUB_ERR_NONE, 1, 2)]"
  using failed_open_is_retried [of "boot_world command_memory ()" no_vtpm
      "[Call_tpm_init, Call_get_max_output_size 0, Call_submit_command 4 0x1000 4 0x2000]"]
    failed_open_is_retried [of "boot_world command_memory 0" late_vtpm_failing_entry
      "[Call_get_max_output_size 0, Call_get_max_output_size 0, Call_tpm_init]"]
    failed_open_is_retried [of "boot_world command_memory 0" late_vtpm
      "[Call_tpm_init, Call_tpm_init]"]
  by (simp add: tcg2_defs no_vtpm_def late_vtpm_def late_vtpm_failing_entry_def boot_world_def
      open_attempts_def dispatch_count_def open_fails_def)

text \<open>
  C1, as stated, fails. On a machine without the node the first call fails after one
  open attempt and the second call opens again (two attempts). On a machine where the
  node appears after the first attempt, the second call does not repeat the failure:
  it succeeds.
\<close>

theorem failed_open_latched_counterexample:
  "fst (grub_ieee1275_tpm_init no_vtpm (boot_world command_memory ())) = GRUB_ERR_UNKNOWN_DEVICE
   \<and> open_attempts (snd (grub_ieee1275_tpm_init no_vtpm (boot_world command_memory ()))) = 1
   \<and> open_attempts (snd (grub_ieee1275_tpm_init no_vtpm
        (snd (grub_ieee1275_tpm_init no_vtpm (boot_world command_memory ()))))) = 2
   \<and> fst (grub_ieee1275_tpm_init late_vtpm (boot_world command_memory 0)) = GRUB_ERR_UNKNOWN_DEVICE
   \<and> fst (grub_ieee1275_tpm_init late_vtpm
        (snd (grub_ieee1275_tpm_init late_vtpm (boot_world command_memory 0)))) = GRUB_ERR_NONE"
  by (simp add: tcg2_defs no_vtpm_def late_vtpm_def boot_world_def open_attempts_def)

text \<open>
  C2. Take any sequence of calls to the three operations, from a state in which the
  warning flag of \<open>grub_tcg2_get_max_output_size\<close> is clear, and of its steps keep the
  calls to \<open>grub_tcg2_get_max_output_size\<close> that see the catch flag set after a
  successful dispatch. The first of them returns \<open>GRUB_ERR_BAD_DEVICE\<close> and surfaces
  exactly the "Firmware is likely too old" warning; every later one returns
  \<open>GRUB_ERR_INVALID_COMMAND\<close> and surfaces nothing. The same holds for
  \<open>grub_tcg2_submit_command\<close> with its own flag and its own message. The sequence may
  interleave the two operations: each part only asks for its own flag to be clear, so
  a warning of one operation does not suppress the other's.
\<close>

theorem unsupported_method_warned_once:
  "(get_max_output_size_error_displayed s = 0 \<longrightarrow>
     (case filter (\<lambda>st. is_get_max_output_size (step_call st)
                        \<and> catch_flag_seen fw (step_call st) (step_pre st)) (run fw cs s) of
        [] \<Rightarrow> True
      | st # sts \<Rightarrow>
          step_err st = GRUB_ERR_BAD_DEVICE
          \<and> step_warnings st =
              [Ev_grub_error GRUB_ERR_BAD_DEVICE
                 (''get-maximum-cmd-size failed: Firmware is likely too old.'' @ [CHR 0x0A])]
          \<and> (\<forall>st' \<in> set sts. step_err st' = GRUB_ERR_INVALID_COMMAND \<and> step_warnings st' = [])))
   \<and> (submit_command_error_displayed s = 0 \<longrightarrow>
     (case filter (\<lambda>st. is_submit_command (step_call st)
                        \<and> catch_flag_seen fw (step_call st) (step_pre st)) (run fw cs s) of
        [] \<Rightarrow> True
      | st # sts \<Rightarrow>
          step_err st = GRUB_ERR_BAD_DEVICE
          \<and> step_warnings st =
              [Ev_grub_error GRUB_ERR_BAD_DEVICE
                 (''pass-through-to-tpm failed: Firmware is likely too old.'' @ [CHR 0x0A])]
          \<and> (\<forall>st' \<in> set sts. step_err st' = GRUB_ERR_INVALID_COMMAND \<and> step_warnings st' = [])))"
proof (intro conjI impI)
  assume "get_max_output_size_error_displayed s = 0"
  with get_max_output_size_flag_steps [of _ fw]
  show "case filter (\<lambda>st. is_get_max_output_size (step_call st)
                        \<and> catch_flag_seen fw (step_call st) (step_pre st)) (run fw cs s) of
        [] \<Rightarrow> True
      | st # sts \<Rightarrow>
          step_err st = GRUB_ERR_BAD_DEVICE
          \<and> step_warnings st =
              [Ev_grub_error GRUB_ERR_BAD_DEVICE
                 (''get-maximum-cmd-size failed: Firmware is likely too old.'' @ [CHR 0x0A])]
          \<and> (\<forall>st' \<in> set sts. step_err st' = GRUB_ERR_INVALID_COMMAND \<and> step_warnings st' = [])"
    by (rule run_hits_first [where hit = "\<lambda>c s. is_get_max_output_size c \<and> catch_flag_seen fw c s"])
next
  assume "submit_command_error_displayed s = 0"
  with submit_command_flag_steps [of _ fw]
  show "case filter (\<lambda>st. is_submit_command (step_call st)
                        \<and> catch_flag_seen fw (step_call st) (step_pre st)) (run fw cs s) of
        [] \<Rightarrow> True
      | st # sts \<Rightarrow>
          step_err st = GRUB_ERR_BAD_DEVICE
          \<and> step_warnings st =
              [Ev_grub_error GRUB_ERR_BAD_DEVICE
                 (''pass-through-to-tpm failed: Firmware is likely too old.'' @ [CHR 0x0A])]
          \<and> (\<forall>st' \<in> set sts. step_err st' = GRUB_ERR_INVALID_COMMAND \<and> step_warnings st' = [])"
    by (rule run_hits_first [where hit = "\<lambda>c s. is_submit_command c \<and> catch_flag_seen fw c s"])
qed

theorem unsupported_method_warned_once_witness:
  "map (\<lambda>st. (step_err st, step_warnings st))
     (run old_firmware
        [Call_get_max_output_size 0, Call_submit_command 4 0x1000 4 0x2000,
         Call_get_max_output_size 0, Call_submit_command 4 0x1000 4 0x2000,
         Call_get_max_output_size 0]
        (boot_world command_memory ()))
   = [(GRUB_ERR_BAD_DEVICE,
       [Ev_grub_error GRUB_ERR_BAD_DEVICE
          (''get-maximum-cmd-size failed: Firmware is likely too old.'' @ [CHR 0x0A])]),
      (GRUB_ERR_BAD_DEVICE,
       [Ev_grub_error GRUB_ERR_BAD_DEVICE
          (''pass-through-to-tpm failed: Firmware is likely too old.'' @ [CHR 0x0A])]),
      (GRUB_ERR_INVALID_COMMAND, []),
      (GRUB_ERR_INVALID_COMMAND, []),
      (GRUB_ERR_INVALID_COMMAND, [])]"
  using unsupported_method_warned_once [of "boot_world command_memory ()" old_firmware
      "[Call_get_max_output_size 0, Call_submit_command 4 0x1000 4 0x2000,
        Call_get_max_output_size 0, Call_submit_command 4 0x1000 4 0x2000,
        Call_get_max_output_size 0]"]
  by (simp add: tcg2_defs old_firmware_def vtpm20_def boot_world_def command_memory_def
      step_warnings_def warnings_def)

text \<open>
  C6. Once a call to \<open>grub_ieee1275_tpm_init\<close> has succeeded, a further call returns
  \<open>GRUB_ERR_NONE\<close> and leaves the whole state as it is. This stays so for the rest of
  the session: in every later sequence of calls to the three operations, each call to
  \<open>grub_ieee1275_tpm_init\<close> returns \<open>GRUB_ERR_NONE\<close> with the state unchanged, and after
  every step the cached handle, the interface version and the number of open attempts
  are those the successful call left.
\<close>

theorem tpm_init_idempotent_after_success:
  assumes "grub_ieee1275_tpm_init fw s = (GRUB_ERR_NONE, s1)"
  shows "grub_ieee1275_tpm_init fw s1 = (GRUB_ERR_NONE, s1)
         \<and> (\<forall>st \<in> set (run fw cs s1).
               (step_call st = Call_tpm_init \<longrightarrow>
                  step_err st = GRUB_ERR_NONE \<and> step_post st = step_pre st)
               \<and> grub_ieee1275_tpm_ihandle (step_post st) = grub_ieee1275_tpm_ihandle s1
               \<and> grub_ieee1275_tpm_version (step_post st) = grub_ieee1275_tpm_version s1
               \<and> open_attempts (step_post st) = open_attempts s1)"
proof -
  have l: "init_success s1 \<noteq> 0"
    using assms by (rule tpm_init_success_latches)
  have "grub_ieee1275_tpm_init fw s1 = (GRUB_ERR_NONE, s1)"
    using l by (rule tpm_init_latched)
  moreover have "(step_call st = Call_tpm_init \<longrightarrow>
                  step_err st = GRUB_ERR_NONE \<and> step_post st = step_pre st)
               \<and> grub_ieee1275_tpm_ihandle (step_post st) = grub_ieee1275_tpm_ihandle s1
               \<and> grub_ieee1275_tpm_version (step_post st) = grub_ieee1275_tpm_version s1
               \<and> open_attempts (step_post st) = open_attempts s1"
    if "st \<in> set (run fw cs s1)" for st
  proof -
    note r = run_latched [OF l that]
    have p: "init_success (step_pre st) \<noteq> 0" using r l by simp
    have "step_err st = GRUB_ERR_NONE \<and> step_post st = step_pre st"
      if c: "step_call st = Call_tpm_init"
    proof -
      have "(step_err st, step_post st) = grub_ieee1275_tpm_init fw (step_pre st)"
        using r c by simp
      also have "\<dots> = (GRUB_ERR_NONE, step_pre st)"
        using p by (rule tpm_init_latched)
      finally show ?thesis by simp
    qed
    then show ?thesis using r by blast
  qed
  ultimately show ?thesis by blast
qed

theorem tpm_init_idempotent_after_success_witness:
  "grub_ieee1275_tpm_init vtpm20 (snd (grub_ieee1275_tpm_init vtpm20 (boot_world command_memory ())))
     = (GRUB_ERR_NONE, snd (grub_ieee1275_tpm_init vtpm20 (boot_world command_memory ())))
   \<and> map (\<lambda>st. (step_err st, grub_ieee1275_tpm_ihandle (step_post st),
                 grub_ieee1275_tpm_version (step_post st), open_attempts (step_post st)))
        (run vtpm20 [Call_tpm_init, Call_get_max_output_size 0, Call_tpm_init]
           (snd (grub_ieee1275_tpm_init vtpm20 (boot_world command_memory ()))))
       = [(GRUB_ERR_NONE, 7, 2, 1), (GRUB_ERR_NONE, 7, 2, 1), (GRUB_ERR_NONE, 7, 2, 1)]"
  using tpm_init_idempotent_after_success [of vtpm20 "boot_world command_memory ()"
      "snd (grub_ieee1275_tpm_init vtpm20 (boot_world command_memory ()))"
      "[Call_tpm_init, Call_get_max_output_size 0, Call_tpm_init]"]
  by (simp add: tcg2_defs vtpm20_def boot_world_def open_attempts_def)

end
